theory Spec2Isabelle
  imports Complex_Main
begin

section \<open>Values exchanged with the device client and the metric sink\<close>

text \<open>
  Every getter of the device client (\<open>bambulabs_api.Printer\<close>) is called inside a
  \<open>try\<close> block of \<open>BambuExporter.update_metrics\<close>. One call either raises or
  returns; an optional value is returned as \<open>None\<close> or as a value.
\<close>

datatype 'a result = Raises | Returns 'a

text \<open>
  A gauge child holds a Python float. Finite values are kept as exact rationals (the
  rounding of a double is not modelled); the three special floats that \<open>float()\<close>
  can build from a string are kept apart.
\<close>

datatype pyfloat = Finite rat | PosInf | NegInf | NaN

text \<open>
  A \<open>prometheus_client\<close> gauge is a dictionary \<open>_metrics\<close> from the tuple of label
  values to the child's value: \<open>labels(...).set(v)\<close> stores \<open>v\<close> under the tuple,
  \<open>_metrics.clear()\<close> removes every tuple.
\<close>

type_synonym gauge = "string list \<rightharpoonup> pyfloat"

section \<open>Python string operations used by the collector\<close>

text \<open>
  Strings are modelled as ASCII text: \<open>str.upper\<close>, \<open>str.lower\<close>, \<open>str.strip\<close>
  and \<open>float\<close> are given on the characters below 128, where they act as follows.
\<close>

definition is_lower :: "char \<Rightarrow> bool" where
  "is_lower c \<longleftrightarrow> 97 \<le> (of_char c :: nat) \<and> (of_char c :: nat) \<le> 122"

definition is_upper :: "char \<Rightarrow> bool" where
  "is_upper c \<longleftrightarrow> 65 \<le> (of_char c :: nat) \<and> (of_char c :: nat) \<le> 90"

definition upper_char :: "char \<Rightarrow> char" where
  "upper_char c = (if is_lower c then char_of ((of_char c :: nat) - 32) else c)"

definition lower_char :: "char \<Rightarrow> char" where
  "lower_char c = (if is_upper c then char_of ((of_char c :: nat) + 32) else c)"

definition upper :: "string \<Rightarrow> string" where
  "upper s = map upper_char s"

definition lower :: "string \<Rightarrow> string" where
  "lower s = map lower_char s"

text \<open>\<open>str.isspace\<close> on ASCII: tab, line feed, VT, FF, CR, FS, GS, RS, US and space.\<close>

definition is_space :: "char \<Rightarrow> bool" where
  "is_space c \<longleftrightarrow> (of_char c :: nat) \<in> {9, 10, 11, 12, 13, 28, 29, 30, 31, 32}"

definition strip :: "string \<Rightarrow> string" where
  "strip s = rev (dropWhile is_space (rev (dropWhile is_space s)))"

text \<open>
  \<open>s.replace('dBm', '')\<close>: every occurrence of the substring, found from the left
  and not overlapping, is removed.
\<close>

fun replace_dBm :: "string \<Rightarrow> string" where
  "replace_dBm [] = []"
| "replace_dBm (c # cs) =
     (if take 3 (c # cs) = ''dBm'' then replace_dBm (drop 2 cs)
      else c # replace_dBm cs)"

subsection \<open>The builtin \<open>float\<close> on a string\<close>

text \<open>
  The grammar of the Python reference for \<open>float(str)\<close>:
  \<^verbatim>\<open>
  digitpart   ::= digit (["_"] digit)*
  number      ::= [digitpart] "." digitpart | digitpart ["."]
  exponent    ::= ("e" | "E") [sign] digitpart
  floatnumber ::= number [exponent]
  floatvalue  ::= [sign] (floatnumber | "inf" | "infinity" | "nan")
  \<close>
  with the words read without regard to case and surrounding whitespace ignored.
  \<open>None\<close> stands for the \<open>ValueError\<close> that any other string raises.
\<close>

definition is_digit :: "char \<Rightarrow> bool" where
  "is_digit c \<longleftrightarrow> 48 \<le> (of_char c :: nat) \<and> (of_char c :: nat) \<le> 57"

definition digit_val :: "char \<Rightarrow> nat" where
  "digit_val c = (of_char c :: nat) - 48"

text \<open>
  \<open>more_digits v n s\<close> continues a digit part whose value so far is \<open>v\<close>, read from
  \<open>n\<close> digits; it returns the value, the number of digits and the unread rest.
\<close>

fun more_digits :: "nat \<Rightarrow> nat \<Rightarrow> string \<Rightarrow> nat \<times> nat \<times> string" where
  "more_digits v n [] = (v, n, [])"
| "more_digits v n [c] =
     (if is_digit c then (10 * v + digit_val c, Suc n, []) else (v, n, [c]))"
| "more_digits v n (c # d # ds) =
     (if is_digit c then more_digits (10 * v + digit_val c) (Suc n) (d # ds)
      else if c = CHR ''_'' \<and> is_digit d then more_digits (10 * v + digit_val d) (Suc n) ds
      else (v, n, c # d # ds))"

fun digitpart :: "string \<Rightarrow> (nat \<times> nat \<times> string) option" where
  "digitpart [] = None"
| "digitpart (c # cs) =
     (if is_digit c then Some (more_digits (digit_val c) 1 cs) else None)"

definition number :: "string \<Rightarrow> (rat \<times> string) option" where
  "number s =
     (case digitpart s of
        Some (i, k, r) \<Rightarrow>
          (case r of
             c # r' \<Rightarrow>
               (if c = CHR ''.'' then
                  (case digitpart r' of
                     Some (f, j, r'') \<Rightarrow> Some (of_nat i + of_nat f / 10 ^ j, r'')
                   | None \<Rightarrow> Some (of_nat i, r'))
                else Some (of_nat i, r))
           | [] \<Rightarrow> Some (of_nat i, []))
      | None \<Rightarrow>
          (case s of
             c # r' \<Rightarrow>
               (if c = CHR ''.'' then
                  (case digitpart r' of
                     Some (f, j, r'') \<Rightarrow> Some (of_nat f / 10 ^ j, r'')
                   | None \<Rightarrow> None)
                else None)
           | [] \<Rightarrow> None))"

definition exponent :: "string \<Rightarrow> rat option" where
  "exponent s =
     (case s of
        [] \<Rightarrow> Some 1
      | c # r \<Rightarrow>
          (if c = CHR ''e'' \<or> c = CHR ''E'' then
             (case r of
                [] \<Rightarrow> None
              | d # r' \<Rightarrow>
                  (if d = CHR ''-'' then
                     (case digitpart r' of
                        Some (e, j, []) \<Rightarrow> Some (1 / 10 ^ e)
                      | _ \<Rightarrow> None)
                   else
                     (case digitpart (if d = CHR ''+'' then r' else r) of
                        Some (e, j, []) \<Rightarrow> Some (10 ^ e)
                      | _ \<Rightarrow> None)))
           else None))"

definition absfloatvalue :: "string \<Rightarrow> pyfloat option" where
  "absfloatvalue s =
     (if lower s = ''inf'' \<or> lower s = ''infinity'' then Some PosInf
      else if lower s = ''nan'' then Some NaN
      else
        (case number s of
           None \<Rightarrow> None
         | Some (v, r) \<Rightarrow>
             (case exponent r of None \<Rightarrow> None | Some x \<Rightarrow> Some (Finite (v * x)))))"

fun negate :: "pyfloat \<Rightarrow> pyfloat" where
  "negate (Finite v) = Finite (- v)"
| "negate PosInf = NegInf"
| "negate NegInf = PosInf"
| "negate NaN = NaN"

definition py_float :: "string \<Rightarrow> pyfloat option" where
  "py_float s =
     (case strip s of
        [] \<Rightarrow> None
      | c # r \<Rightarrow>
          (if c = CHR ''-'' then map_option negate (absfloatvalue r)
           else if c = CHR ''+'' then absfloatvalue r
           else absfloatvalue (c # r)))"

section \<open>The device client and the metrics of one printer\<close>

text \<open>
  What the client of one printer answers during one poll cycle: the connectivity check and
  one outcome per getter that \<open>update_metrics\<close> calls. Temperatures, progress, time,
  layers and speed are numbers; the error code is an integer; every value that the code
  passes through \<open>str(...)\<close> (signal strength, light state, both state signals, file
  name, nozzle type and diameter) is given as the text that \<open>str\<close> yields.
  The client method \<open>wifi_signal\<close> carries a suffix here, since the gauge of
  \<open>BambuMetrics\<close> has the same name.
\<close>

record printer =
  mqtt_client_connected :: "bool result"
  get_nozzle_temperature :: "rat option result"
  get_bed_temperature :: "rat option result"
  get_chamber_temperature :: "rat option result"
  get_percentage :: "rat option result"
  get_time :: "rat option result"
  current_layer_num :: "rat option result"
  total_layer_num :: "rat option result"
  get_print_speed :: "rat option result"
  wifi_signal_call :: "string option result"
  get_light_state :: "string option result"
  get_state :: "string option result"
  gcode_state :: "string option result"
  print_error_code :: "int option result"
  get_file_name :: "string option result"
  nozzle_type :: "string option result"
  nozzle_diameter :: "string option result"

text \<open>
  \<open>class BambuMetrics\<close>: one gauge object per attribute, created for one printer.
  The counter is kept as its table of children; the \<open>Info\<close> metric holds texts.
\<close>

record BambuMetrics =
  nozzle_temp :: gauge
  nozzle_target_temp :: gauge
  bed_temp :: gauge
  bed_target_temp :: gauge
  chamber_temp :: gauge
  print_progress :: gauge
  print_remaining_time :: gauge
  current_layer :: gauge
  total_layers :: gauge
  print_speed :: gauge
  printer_online :: gauge
  printer_state :: gauge
  wifi_signal :: gauge
  chamber_light :: gauge
  error_code :: gauge
  total_prints :: gauge
  current_file :: gauge
  nozzle_info :: gauge
  printer_info :: "string list \<rightharpoonup> (string \<rightharpoonup> string)"
  printer_name :: string

text \<open>\<open>BambuMetrics.__init__\<close>: every metric starts without any child.\<close>

definition BambuMetrics_init :: "string \<Rightarrow> BambuMetrics" where
  "BambuMetrics_init name =
     \<lparr>nozzle_temp = Map.empty, nozzle_target_temp = Map.empty, bed_temp = Map.empty,
      bed_target_temp = Map.empty, chamber_temp = Map.empty, print_progress = Map.empty,
      print_remaining_time = Map.empty, current_layer = Map.empty,
      total_layers = Map.empty, print_speed = Map.empty, printer_online = Map.empty,
      printer_state = Map.empty, wifi_signal = Map.empty, chamber_light = Map.empty,
      error_code = Map.empty, total_prints = Map.empty, current_file = Map.empty,
      nozzle_info = Map.empty, printer_info = Map.empty, printer_name = name\<rparr>"

text \<open>\<open>g.labels(...).set(v)\<close> with a finite number \<open>v\<close>.\<close>

definition set_value :: "string list \<Rightarrow> rat \<Rightarrow> gauge \<Rightarrow> gauge" where
  "set_value ls v g = g(ls \<mapsto> Finite v)"

section \<open>\<open>BambuExporter.update_metrics\<close>, the body for one printer\<close>

subsection \<open>The two offline resets\<close>

text \<open>Lines 273-287: the branch taken when the client reports no MQTT connection.\<close>

definition reset_disconnected :: "string \<Rightarrow> BambuMetrics \<Rightarrow> BambuMetrics" where
  "reset_disconnected name m =
     m\<lparr>printer_online := set_value [name] 0 (printer_online m),
       nozzle_temp := set_value [name] 0 (nozzle_temp m),
       nozzle_target_temp := set_value [name] 0 (nozzle_target_temp m),
       bed_temp := set_value [name] 0 (bed_temp m),
       bed_target_temp := set_value [name] 0 (bed_target_temp m),
       chamber_temp := set_value [name] 0 (chamber_temp m),
       print_progress := set_value [name] 0 (print_progress m),
       print_remaining_time := set_value [name] 0 (print_remaining_time m),
       current_layer := set_value [name] 0 (current_layer m),
       total_layers := set_value [name] 0 (total_layers m),
       print_speed := set_value [name] 0 (print_speed m),
       error_code := set_value [name] 0 (error_code m),
       printer_state := set_value [name] 0 (printer_state m)\<rparr>"

text \<open>Lines 324-338: the branch taken when no temperature was received.\<close>

definition reset_silent :: "string \<Rightarrow> BambuMetrics \<Rightarrow> BambuMetrics" where
  "reset_silent name m =
     m\<lparr>printer_online := set_value [name] 0 (printer_online m),
       nozzle_temp := set_value [name] 0 (nozzle_temp m),
       nozzle_target_temp := set_value [name] 0 (nozzle_target_temp m),
       bed_temp := set_value [name] 0 (bed_temp m),
       bed_target_temp := set_value [name] 0 (bed_target_temp m),
       chamber_temp := set_value [name] 0 (chamber_temp m),
       print_progress := set_value [name] 0 (print_progress m),
       print_remaining_time := set_value [name] 0 (print_remaining_time m),
       current_layer := set_value [name] 0 (current_layer m),
       total_layers := set_value [name] 0 (total_layers m),
       print_speed := set_value [name] 0 (print_speed m),
       error_code := set_value [name] 0 (error_code m),
       printer_state := set_value [name] 0 (printer_state m)\<rparr>"

subsection \<open>The temperature reads, which decide \<open>data_received\<close>\<close>

text \<open>
  Lines 294-317. Each block is a \<open>try\<close> of its own: a getter that raises leaves the
  gauge and the flag as they are, as does a getter that returns \<open>None\<close>. The state of a
  block is the metrics together with the flag \<open>data_received\<close>.
\<close>

definition read_nozzle_temp :: "string \<Rightarrow> printer \<Rightarrow> BambuMetrics \<times> bool \<Rightarrow> BambuMetrics \<times> bool" where
  "read_nozzle_temp name p s =
     (case get_nozzle_temperature p of
        Raises \<Rightarrow> s
      | Returns None \<Rightarrow> s
      | Returns (Some t) \<Rightarrow>
          ((fst s)\<lparr>nozzle_temp := set_value [name] t (nozzle_temp (fst s))\<rparr>, True))"

definition read_bed_temp :: "string \<Rightarrow> printer \<Rightarrow> BambuMetrics \<times> bool \<Rightarrow> BambuMetrics \<times> bool" where
  "read_bed_temp name p s =
     (case get_bed_temperature p of
        Raises \<Rightarrow> s
      | Returns None \<Rightarrow> s
      | Returns (Some t) \<Rightarrow>
          ((fst s)\<lparr>bed_temp := set_value [name] t (bed_temp (fst s))\<rparr>, True))"

definition read_chamber_temp :: "string \<Rightarrow> printer \<Rightarrow> BambuMetrics \<times> bool \<Rightarrow> BambuMetrics \<times> bool" where
  "read_chamber_temp name p s =
     (case get_chamber_temperature p of
        Raises \<Rightarrow> s
      | Returns None \<Rightarrow> s
      | Returns (Some t) \<Rightarrow>
          ((fst s)\<lparr>chamber_temp := set_value [name] t (chamber_temp (fst s))\<rparr>, True))"

definition read_temperatures :: "string \<Rightarrow> printer \<Rightarrow> BambuMetrics \<Rightarrow> BambuMetrics \<times> bool" where
  "read_temperatures name p m =
     read_chamber_temp name p (read_bed_temp name p (read_nozzle_temp name p (m, False)))"

subsection \<open>The reads made only for a printer that is online\<close>

text \<open>Lines 343-381: progress, remaining time (minutes to seconds), layers, speed.\<close>

definition read_progress :: "string \<Rightarrow> printer \<Rightarrow> BambuMetrics \<Rightarrow> BambuMetrics" where
  "read_progress name p m =
     (case get_percentage p of
        Raises \<Rightarrow> m
      | Returns None \<Rightarrow> m
      | Returns (Some progress) \<Rightarrow>
          m\<lparr>print_progress := set_value [name] progress (print_progress m)\<rparr>)"

definition read_remaining_time :: "string \<Rightarrow> printer \<Rightarrow> BambuMetrics \<Rightarrow> BambuMetrics" where
  "read_remaining_time name p m =
     (case get_time p of
        Raises \<Rightarrow> m
      | Returns None \<Rightarrow> m
      | Returns (Some remaining_time) \<Rightarrow>
          m\<lparr>print_remaining_time :=
              set_value [name] (remaining_time * 60) (print_remaining_time m)\<rparr>)"

definition read_current_layer :: "string \<Rightarrow> printer \<Rightarrow> BambuMetrics \<Rightarrow> BambuMetrics" where
  "read_current_layer name p m =
     (case current_layer_num p of
        Raises \<Rightarrow> m
      | Returns None \<Rightarrow> m
      | Returns (Some l) \<Rightarrow> m\<lparr>current_layer := set_value [name] l (current_layer m)\<rparr>)"

definition read_total_layers :: "string \<Rightarrow> printer \<Rightarrow> BambuMetrics \<Rightarrow> BambuMetrics" where
  "read_total_layers name p m =
     (case total_layer_num p of
        Raises \<Rightarrow> m
      | Returns None \<Rightarrow> m
      | Returns (Some l) \<Rightarrow> m\<lparr>total_layers := set_value [name] l (total_layers m)\<rparr>)"

definition read_print_speed :: "string \<Rightarrow> printer \<Rightarrow> BambuMetrics \<Rightarrow> BambuMetrics" where
  "read_print_speed name p m =
     (case get_print_speed p of
        Raises \<Rightarrow> m
      | Returns None \<Rightarrow> m
      | Returns (Some v) \<Rightarrow> m\<lparr>print_speed := set_value [name] v (print_speed m)\<rparr>)"

text \<open>
  Lines 384-391: the signal strength. \<open>float\<close> raising \<open>ValueError\<close> is caught by the
  block's handler, so the gauge keeps its value.
\<close>

definition read_wifi_signal :: "string \<Rightarrow> printer \<Rightarrow> BambuMetrics \<Rightarrow> BambuMetrics" where
  "read_wifi_signal name p m =
     (case wifi_signal_call p of
        Raises \<Rightarrow> m
      | Returns None \<Rightarrow> m
      | Returns (Some w) \<Rightarrow>
          (let signal_str = strip (replace_dBm w) in
           case py_float signal_str of
             None \<Rightarrow> m
           | Some v \<Rightarrow> m\<lparr>wifi_signal := (wifi_signal m)([name] \<mapsto> v)\<rparr>))"

text \<open>Lines 394-401: the chamber light.\<close>

definition read_light_state :: "string \<Rightarrow> printer \<Rightarrow> BambuMetrics \<Rightarrow> BambuMetrics" where
  "read_light_state name p m =
     (case get_light_state p of
        Raises \<Rightarrow> m
      | Returns None \<Rightarrow> m
      | Returns (Some light_state) \<Rightarrow>
          (let is_on = (lower light_state = ''on'') in
           m\<lparr>chamber_light := set_value [name] (if is_on then 1 else 0) (chamber_light m)\<rparr>))"

subsection \<open>The printer state\<close>

text \<open>Lines 417-424: the dictionary \<open>state_mapping\<close>.\<close>

definition state_mapping :: "(string \<times> int) list" where
  "state_mapping =
     [(''IDLE'', 0), (''PRINTING'', 1), (''RUNNING'', 1), (''PAUSED'', 2), (''FINISH'', 3),
      (''FAILED'', 4)]"

text \<open>
  Lines 425-431: \<open>state_str\<close> starts as the upper-cased coarse state and is replaced by
  the upper-cased \<open>gcode_state\<close> when that one is truthy (neither \<open>None\<close> nor the
  empty string) and a key of \<open>state_mapping\<close>.
\<close>

definition state_str :: "string \<Rightarrow> string option \<Rightarrow> string" where
  "state_str state gcode =
     (case gcode of
        None \<Rightarrow> upper state
      | Some g \<Rightarrow>
          (if g \<noteq> [] \<and> map_of state_mapping (upper g) \<noteq> None then upper g
           else upper state))"

text \<open>Line 433: \<open>state_mapping.get(state_str, 0)\<close>.\<close>

definition state_value :: "string \<Rightarrow> string option \<Rightarrow> int" where
  "state_value state gcode =
     (case map_of state_mapping (state_str state gcode) of None \<Rightarrow> 0 | Some v \<Rightarrow> v)"

text \<open>
  Lines 404-437. Reading the attribute \<open>gcode_state\<close> has a handler of its own that
  leaves \<open>None\<close>; the gauge is written only under \<open>if state is not None\<close>.
\<close>

definition read_state :: "string \<Rightarrow> printer \<Rightarrow> BambuMetrics \<Rightarrow> BambuMetrics" where
  "read_state name p m =
     (case get_state p of
        Raises \<Rightarrow> m
      | Returns state \<Rightarrow>
          (let gcode = (case gcode_state p of Raises \<Rightarrow> None | Returns g \<Rightarrow> g) in
           case state of
             None \<Rightarrow> m
           | Some s \<Rightarrow>
               m\<lparr>printer_state :=
                   set_value [name] (of_int (state_value s gcode)) (printer_state m)\<rparr>))"

subsection \<open>Error code, current file and nozzle information\<close>

text \<open>Lines 440-445: \<open>int(error_code) if error_code else 0\<close>.\<close>

definition read_error_code :: "string \<Rightarrow> printer \<Rightarrow> BambuMetrics \<Rightarrow> BambuMetrics" where
  "read_error_code name p m =
     (case print_error_code p of
        Raises \<Rightarrow> m
      | Returns None \<Rightarrow> m
      | Returns (Some e) \<Rightarrow>
          m\<lparr>error_code := set_value [name] (of_int (if e \<noteq> 0 then e else 0)) (error_code m)\<rparr>)"

text \<open>
  Lines 448-459: under \<open>if filename:\<close> (neither \<open>None\<close> nor empty) the gauge's table is
  cleared and the one combination \<open>(name, filename)\<close> is set to 1; otherwise only a
  warning is logged.
\<close>

definition read_file_name :: "string \<Rightarrow> printer \<Rightarrow> BambuMetrics \<Rightarrow> BambuMetrics" where
  "read_file_name name p m =
     (case get_file_name p of
        Raises \<Rightarrow> m
      | Returns None \<Rightarrow> m
      | Returns (Some filename) \<Rightarrow>
          (if filename \<noteq> [] then m\<lparr>current_file := set_value [name, filename] 1 Map.empty\<rparr>
           else m))"

text \<open>
  Lines 462-474: both getters are called in one \<open>try\<close>, type first; the table is
  cleared and set under \<open>nozzle_type is not None and nozzle_diameter is not None\<close>.
\<close>

definition read_nozzle_info :: "string \<Rightarrow> printer \<Rightarrow> BambuMetrics \<Rightarrow> BambuMetrics" where
  "read_nozzle_info name p m =
     (case nozzle_type p of
        Raises \<Rightarrow> m
      | Returns ty \<Rightarrow>
          (case nozzle_diameter p of
             Raises \<Rightarrow> m
           | Returns di \<Rightarrow>
               (case (ty, di) of
                  (Some t, Some d) \<Rightarrow> m\<lparr>nozzle_info := set_value [name, t, d] 1 Map.empty\<rparr>
                | _ \<Rightarrow> m)))"

subsection \<open>One printer, one cycle\<close>

text \<open>Lines 343-474 in order: everything read after the printer was found online.\<close>

definition read_online_fields :: "string \<Rightarrow> printer \<Rightarrow> BambuMetrics \<Rightarrow> BambuMetrics" where
  "read_online_fields name p m =
     read_nozzle_info name p
      (read_file_name name p
        (read_error_code name p
          (read_state name p
            (read_light_state name p
              (read_wifi_signal name p
                (read_print_speed name p
                  (read_total_layers name p
                    (read_current_layer name p
                      (read_remaining_time name p
                        (read_progress name p m))))))))))"

text \<open>
  How the body of the outer \<open>try\<close> ends: it runs to its end (or to a \<open>continue\<close>), or an
  exception leaves it. Gauges are changed in place, so the metrics reached so far are
  returned in both cases.
\<close>

datatype outcome = Normal | Raised

text \<open>
  Lines 268-476, the body of the outer \<open>try\<close> for the printer \<open>name\<close> with metrics
  \<open>m\<close>. The connectivity check is the one client call outside every inner \<open>try\<close>.
\<close>

definition update_printer :: "string \<Rightarrow> printer \<Rightarrow> BambuMetrics \<Rightarrow> outcome \<times> BambuMetrics" where
  "update_printer name p m =
     (case mqtt_client_connected p of
        Raises \<Rightarrow> (Raised, m)
      | Returns is_connected \<Rightarrow>
          (if \<not> is_connected then (Normal, reset_disconnected name m)
           else
             (case read_temperatures name p m of
                (m1, data_received) \<Rightarrow>
                  (if data_received then
                     (Normal,
                      read_online_fields name p
                        (m1\<lparr>printer_online := set_value [name] 1 (printer_online m1)\<rparr>))
                   else (Normal, reset_silent name m1)))))"

text \<open>
  Lines 478-480, the handler of the outer \<open>try\<close>: the online gauge is set to 0 and the
  loop goes on with the next printer.
\<close>

definition update_device :: "string \<Rightarrow> printer \<Rightarrow> BambuMetrics \<Rightarrow> BambuMetrics" where
  "update_device name p m =
     (case update_printer name p m of
        (Normal, m') \<Rightarrow> m'
      | (Raised, m') \<Rightarrow> m'\<lparr>printer_online := set_value [name] 0 (printer_online m')\<rparr>)"

section \<open>\<open>BambuExporter.update_metrics\<close>, the loop over the printers\<close>

text \<open>
  \<open>self.printers\<close> is given as the list of its items in insertion order, each client with
  its answers of this cycle; \<open>self.metrics\<close> is the dictionary from names to metrics.
  \<open>self.metrics[name]\<close> of a missing name raises \<open>KeyError\<close> inside the outer \<open>try\<close>;
  the handler evaluates \<open>self.metrics[name]\<close> again, so this exception leaves
  \<open>update_metrics\<close> and the printers that follow are not visited.
\<close>

fun update_metrics ::
  "(string \<times> printer) list \<Rightarrow> (string \<rightharpoonup> BambuMetrics) \<Rightarrow> outcome \<times> (string \<rightharpoonup> BambuMetrics)" where
  "update_metrics [] ms = (Normal, ms)"
| "update_metrics ((name, p) # rest) ms =
     (case ms name of
        None \<Rightarrow> (Raised, ms)
      | Some m \<Rightarrow> update_metrics rest (ms(name \<mapsto> update_device name p m)))"

text \<open>
  The cycles of one printer: \<open>run\<close> calls \<open>update_metrics\<close> once per interval; for a
  single printer this is \<open>update_device\<close> once per cycle, on that cycle's answers.
\<close>

fun cycles :: "string \<Rightarrow> printer list \<Rightarrow> BambuMetrics \<Rightarrow> BambuMetrics" where
  "cycles name [] m = m"
| "cycles name (p # ps) m = cycles name ps (update_device name p m)"

section \<open>Notions used to state the properties\<close>

text \<open>
  What one \<open>try\<close> block keeps of a getter call: the value, or nothing when the call
  raised or returned \<open>None\<close>.
\<close>

definition collected :: "'a option result \<Rightarrow> 'a option" where
  "collected r = (case r of Raises \<Rightarrow> None | Returns v \<Rightarrow> v)"

definition has_value :: "'a option \<Rightarrow> bool" where
  "has_value v = (case v of None \<Rightarrow> False | Some x \<Rightarrow> True)"

text \<open>
  The flag \<open>data_received\<close> as lines 291-317 compute it: it is set in the three
  temperature blocks and nowhere else.
\<close>

definition data_received :: "printer \<Rightarrow> bool" where
  "data_received p \<longleftrightarrow>
     has_value (collected (get_nozzle_temperature p)) \<or>
     has_value (collected (get_bed_temperature p)) \<or>
     has_value (collected (get_chamber_temperature p))"

text \<open>The value of \<open>gcode_state\<close> after lines 409-413.\<close>

definition gcode_of :: "printer \<Rightarrow> string option" where
  "gcode_of p = collected (gcode_state p)"

text \<open>
  The three liveness classes and the ordered rule that assigns them from the connectivity
  flag and a flag saying that data was received.
\<close>

datatype liveness = ONLINE | OFFLINE_SILENT | OFFLINE_DISCONNECTED

definition liveness_of :: "bool \<Rightarrow> bool \<Rightarrow> liveness" where
  "liveness_of is_connected any_data =
     (if \<not> is_connected then OFFLINE_DISCONNECTED
      else if \<not> any_data then OFFLINE_SILENT
      else ONLINE)"

definition online_value :: "liveness \<Rightarrow> rat" where
  "online_value l = (if l = ONLINE then 1 else 0)"

text \<open>
  The specification's reading of the data flag: true whenever any telemetry field of
  its list (temperatures, progress, remaining time, layers, speed, signal strength, light
  state, both state signals, error code, file name, nozzle type and diameter) returned a
  present value this cycle.
\<close>

definition spec_any_field_returned_data :: "printer \<Rightarrow> bool" where
  "spec_any_field_returned_data p \<longleftrightarrow>
     has_value (collected (get_nozzle_temperature p)) \<or>
     has_value (collected (get_bed_temperature p)) \<or>
     has_value (collected (get_chamber_temperature p)) \<or>
     has_value (collected (get_percentage p)) \<or>
     has_value (collected (get_time p)) \<or>
     has_value (collected (current_layer_num p)) \<or>
     has_value (collected (total_layer_num p)) \<or>
     has_value (collected (get_print_speed p)) \<or>
     has_value (collected (wifi_signal_call p)) \<or>
     has_value (collected (get_light_state p)) \<or>
     has_value (collected (get_state p)) \<or>
     has_value (collected (gcode_state p)) \<or>
     has_value (collected (print_error_code p)) \<or>
     has_value (collected (get_file_name p)) \<or>
     has_value (collected (nozzle_type p)) \<or>
     has_value (collected (nozzle_diameter p))"


text \<open>
  The specification's protocol for a dynamic-label metric: remove every combination, then
  set the one combination of a present value to 1.
\<close>

definition spec_dynamic_update :: "string list option \<Rightarrow> gauge \<Rightarrow> gauge" where
  "spec_dynamic_update labels g =
     (case labels of None \<Rightarrow> Map.empty | Some ls \<Rightarrow> set_value ls 1 Map.empty)"

text \<open>
  A dynamic-label gauge with at most one combination, which then has the value 1.
\<close>

definition single_active :: "gauge \<Rightarrow> bool" where
  "single_active g \<longleftrightarrow> g = Map.empty \<or> (\<exists>ls. g = [ls \<mapsto> Finite 1])"

text \<open>The label combination that one cycle has for the file gauge and the nozzle gauge.\<close>

definition file_labels :: "string \<Rightarrow> printer \<Rightarrow> string list option" where
  "file_labels name p =
     (case collected (get_file_name p) of
        None \<Rightarrow> None
      | Some f \<Rightarrow> (if f \<noteq> [] then Some [name, f] else None))"

definition nozzle_labels :: "string \<Rightarrow> printer \<Rightarrow> string list option" where
  "nozzle_labels name p =
     (case (collected (nozzle_type p), collected (nozzle_diameter p)) of
        (Some t, Some d) \<Rightarrow> Some [name, t, d]
      | _ \<Rightarrow> None)"

subsection \<open>Sample answers of a client\<close>

text \<open>A connected client whose getters all return \<open>None\<close>.\<close>

definition silent_printer :: printer where
  "silent_printer =
     \<lparr>mqtt_client_connected = Returns True, get_nozzle_temperature = Returns None,
      get_bed_temperature = Returns None, get_chamber_temperature = Returns None,
      get_percentage = Returns None, get_time = Returns None,
      current_layer_num = Returns None, total_layer_num = Returns None,
      get_print_speed = Returns None, wifi_signal_call = Returns None,
      get_light_state = Returns None, get_state = Returns None,
      gcode_state = Returns None, print_error_code = Returns None,
      get_file_name = Returns None, nozzle_type = Returns None,
      nozzle_diameter = Returns None\<rparr>"

text \<open>A printer at work that answers every getter.\<close>

definition busy_printer :: printer where
  "busy_printer =
     \<lparr>mqtt_client_connected = Returns True, get_nozzle_temperature = Returns (Some (421 / 2)),
      get_bed_temperature = Returns (Some 60), get_chamber_temperature = Returns (Some 35),
      get_percentage = Returns (Some 50), get_time = Returns (Some 12),
      current_layer_num = Returns (Some 40), total_layer_num = Returns (Some 80),
      get_print_speed = Returns (Some 100), wifi_signal_call = Returns (Some ''-63dBm''),
      get_light_state = Returns (Some ''ON''), get_state = Returns (Some ''PRINTING''),
      gcode_state = Returns (Some ''PAUSED''), print_error_code = Returns (Some 0),
      get_file_name = Returns (Some ''a.gcode''), nozzle_type = Returns (Some ''steel''),
      nozzle_diameter = Returns (Some ''0.4'')\<rparr>"

section \<open>What each block does to the metrics\<close>

lemma has_value_simps [simp]: "has_value None = False" "has_value (Some x) = True"
  by (simp_all add: has_value_def)

lemma has_value_iff: "has_value v \<longleftrightarrow> v \<noteq> None"
  by (cases v) simp_all

lemma read_nozzle_temp_eq:
  "read_nozzle_temp name p s =
     ((fst s)\<lparr>nozzle_temp :=
         (case collected (get_nozzle_temperature p) of
            None \<Rightarrow> nozzle_temp (fst s)
          | Some v \<Rightarrow> set_value [name] v (nozzle_temp (fst s)))\<rparr>,
      snd s \<or> has_value (collected (get_nozzle_temperature p)))"
  by (cases s) (simp add: read_nozzle_temp_def collected_def split: result.splits option.splits)

lemma read_bed_temp_eq:
  "read_bed_temp name p s =
     ((fst s)\<lparr>bed_temp :=
         (case collected (get_bed_temperature p) of
            None \<Rightarrow> bed_temp (fst s)
          | Some v \<Rightarrow> set_value [name] v (bed_temp (fst s)))\<rparr>,
      snd s \<or> has_value (collected (get_bed_temperature p)))"
  by (cases s) (simp add: read_bed_temp_def collected_def split: result.splits option.splits)

lemma read_chamber_temp_eq:
  "read_chamber_temp name p s =
     ((fst s)\<lparr>chamber_temp :=
         (case collected (get_chamber_temperature p) of
            None \<Rightarrow> chamber_temp (fst s)
          | Some v \<Rightarrow> set_value [name] v (chamber_temp (fst s)))\<rparr>,
      snd s \<or> has_value (collected (get_chamber_temperature p)))"
  by (cases s) (simp add: read_chamber_temp_def collected_def split: result.splits option.splits)

lemma read_temperatures_eq:
  "read_temperatures name p m =
     (m\<lparr>nozzle_temp :=
          (case collected (get_nozzle_temperature p) of
             None \<Rightarrow> nozzle_temp m
           | Some v \<Rightarrow> set_value [name] v (nozzle_temp m)),
        bed_temp :=
          (case collected (get_bed_temperature p) of
             None \<Rightarrow> bed_temp m
           | Some v \<Rightarrow> set_value [name] v (bed_temp m)),
        chamber_temp :=
          (case collected (get_chamber_temperature p) of
             None \<Rightarrow> chamber_temp m
           | Some v \<Rightarrow> set_value [name] v (chamber_temp m))\<rparr>,
      data_received p)"
  by (simp add: read_temperatures_def read_nozzle_temp_eq read_bed_temp_eq
      read_chamber_temp_eq data_received_def split: option.splits)

lemma read_progress_eq:
  "read_progress name p m =
     m\<lparr>print_progress :=
         (case collected (get_percentage p) of
            None \<Rightarrow> print_progress m
          | Some v \<Rightarrow> set_value [name] v (print_progress m))\<rparr>"
  by (simp add: read_progress_def collected_def split: result.splits option.splits)

lemma read_remaining_time_eq:
  "read_remaining_time name p m =
     m\<lparr>print_remaining_time :=
         (case collected (get_time p) of
            None \<Rightarrow> print_remaining_time m
          | Some v \<Rightarrow> set_value [name] (v * 60) (print_remaining_time m))\<rparr>"
  by (simp add: read_remaining_time_def collected_def split: result.splits option.splits)

lemma read_current_layer_eq:
  "read_current_layer name p m =
     m\<lparr>current_layer :=
         (case collected (current_layer_num p) of
            None \<Rightarrow> current_layer m
          | Some v \<Rightarrow> set_value [name] v (current_layer m))\<rparr>"
  by (simp add: read_current_layer_def collected_def split: result.splits option.splits)

lemma read_total_layers_eq:
  "read_total_layers name p m =
     m\<lparr>total_layers :=
         (case collected (total_layer_num p) of
            None \<Rightarrow> total_layers m
          | Some v \<Rightarrow> set_value [name] v (total_layers m))\<rparr>"
  by (simp add: read_total_layers_def collected_def split: result.splits option.splits)

lemma read_print_speed_eq:
  "read_print_speed name p m =
     m\<lparr>print_speed :=
         (case collected (get_print_speed p) of
            None \<Rightarrow> print_speed m
          | Some v \<Rightarrow> set_value [name] v (print_speed m))\<rparr>"
  by (simp add: read_print_speed_def collected_def split: result.splits option.splits)

lemma read_wifi_signal_eq:
  "read_wifi_signal name p m =
     m\<lparr>wifi_signal :=
         (case collected (wifi_signal_call p) of
            None \<Rightarrow> wifi_signal m
          | Some w \<Rightarrow>
              (case py_float (strip (replace_dBm w)) of
                 None \<Rightarrow> wifi_signal m
               | Some v \<Rightarrow> (wifi_signal m)([name] \<mapsto> v)))\<rparr>"
  by (simp add: read_wifi_signal_def collected_def Let_def split: result.splits option.splits)

lemma read_light_state_eq:
  "read_light_state name p m =
     m\<lparr>chamber_light :=
         (case collected (get_light_state p) of
            None \<Rightarrow> chamber_light m
          | Some l \<Rightarrow>
              set_value [name] (if lower l = ''on'' then 1 else 0) (chamber_light m))\<rparr>"
  by (simp add: read_light_state_def collected_def Let_def split: result.splits option.splits)

lemma read_state_eq:
  "read_state name p m =
     m\<lparr>printer_state :=
         (case collected (get_state p) of
            None \<Rightarrow> printer_state m
          | Some s \<Rightarrow>
              set_value [name] (of_int (state_value s (gcode_of p))) (printer_state m))\<rparr>"
  by (simp add: read_state_def collected_def gcode_of_def Let_def
      split: result.splits option.splits)

lemma read_error_code_eq:
  "read_error_code name p m =
     m\<lparr>error_code :=
         (case collected (print_error_code p) of
            None \<Rightarrow> error_code m
          | Some e \<Rightarrow> set_value [name] (of_int e) (error_code m))\<rparr>"
  by (simp add: read_error_code_def collected_def split: result.splits option.splits)

lemma read_file_name_eq:
  "read_file_name name p m =
     m\<lparr>current_file :=
         (case file_labels name p of
            None \<Rightarrow> current_file m
          | Some ls \<Rightarrow> set_value ls 1 Map.empty)\<rparr>"
  by (simp add: read_file_name_def file_labels_def collected_def
      split: result.splits option.splits)

lemma read_nozzle_info_eq:
  "read_nozzle_info name p m =
     m\<lparr>nozzle_info :=
         (case nozzle_labels name p of
            None \<Rightarrow> nozzle_info m
          | Some ls \<Rightarrow> set_value ls 1 Map.empty)\<rparr>"
  by (simp add: read_nozzle_info_def nozzle_labels_def collected_def
      split: result.splits option.splits)

lemmas read_online_eqs =
  read_progress_eq read_remaining_time_eq read_current_layer_eq read_total_layers_eq
  read_print_speed_eq read_wifi_signal_eq read_light_state_eq read_state_eq
  read_error_code_eq read_file_name_eq read_nozzle_info_eq

text \<open>The body for a printer that is connected and delivered a temperature.\<close>

lemma update_printer_online:
  assumes "mqtt_client_connected p = Returns True" and "data_received p"
  shows "update_printer name p m =
    (Normal,
     read_online_fields name p
       ((fst (read_temperatures name p m))
          \<lparr>printer_online :=
             set_value [name] 1 (printer_online (fst (read_temperatures name p m)))\<rparr>))"
  using assms by (simp add: update_printer_def read_temperatures_eq)

lemma update_printer_silent:
  assumes "mqtt_client_connected p = Returns True" and "\<not> data_received p"
  shows "update_printer name p m = (Normal, reset_silent name (fst (read_temperatures name p m)))"
  using assms by (simp add: update_printer_def read_temperatures_eq)

lemma update_printer_disconnected:
  assumes "mqtt_client_connected p = Returns False"
  shows "update_printer name p m = (Normal, reset_disconnected name m)"
  using assms by (simp add: update_printer_def)

lemma update_printer_raises:
  assumes "mqtt_client_connected p = Raises"
  shows "update_printer name p m = (Raised, m)"
  using assms by (simp add: update_printer_def)

section \<open>The printer state\<close>


lemma upper_Nil [simp]: "upper [] = []"
  by (simp add: upper_def)

lemma state_str_None [simp]: "state_str s None = upper s"
  by (simp add: state_str_def)





lemma busy_online:
  "mqtt_client_connected busy_printer = Returns True" "data_received busy_printer"
  by (simp_all add: busy_printer_def data_received_def collected_def)



lemma update_device_normal:
  "fst (update_printer name p m) = Normal \<Longrightarrow>
   update_device name p m = snd (update_printer name p m)"
  by (cases "update_printer name p m") (simp add: update_device_def)






section \<open>Unit normalization\<close>

lemma online_gauges:
  assumes "mqtt_client_connected p = Returns True" and "data_received p"
  shows "print_remaining_time (snd (update_printer name p m)) =
      (case collected (get_time p) of
         None \<Rightarrow> print_remaining_time m
       | Some v \<Rightarrow> set_value [name] (v * 60) (print_remaining_time m))"
    and "wifi_signal (snd (update_printer name p m)) =
      (case collected (wifi_signal_call p) of
         None \<Rightarrow> wifi_signal m
       | Some w \<Rightarrow>
           (case py_float (strip (replace_dBm w)) of
              None \<Rightarrow> wifi_signal m
            | Some v \<Rightarrow> (wifi_signal m)([name] \<mapsto> v)))"
    and "chamber_light (snd (update_printer name p m)) =
      (case collected (get_light_state p) of
         None \<Rightarrow> chamber_light m
       | Some l \<Rightarrow> set_value [name] (if lower l = ''on'' then 1 else 0) (chamber_light m))"
    and "printer_online (snd (update_printer name p m)) = set_value [name] 1 (printer_online m)"
    and "nozzle_temp (snd (update_printer name p m)) =
      (case collected (get_nozzle_temperature p) of
         None \<Rightarrow> nozzle_temp m
       | Some v \<Rightarrow> set_value [name] v (nozzle_temp m))"
    and "current_file (snd (update_printer name p m)) =
      (case file_labels name p of
         None \<Rightarrow> current_file m
       | Some ls \<Rightarrow> set_value ls 1 Map.empty)"
    and "nozzle_info (snd (update_printer name p m)) =
      (case nozzle_labels name p of
         None \<Rightarrow> nozzle_info m
       | Some ls \<Rightarrow> set_value ls 1 Map.empty)"
  by (simp_all add: update_printer_online [OF assms] read_online_fields_def read_online_eqs
      read_temperatures_eq cong: option.case_cong)

lemma signal_examples:
  "py_float (strip (replace_dBm ''-63dBm'')) = Some (Finite (- 63))"
  "py_float (strip (replace_dBm ''N/A'')) = None"
  "py_float (strip ''-63'') = Some (Finite (- 63))"
  "py_float (strip ''N/A'') = None"
  by code_simp+






section \<open>Liveness\<close>

lemma data_received_iff:
  "data_received p \<longleftrightarrow>
     (\<exists>v. get_nozzle_temperature p = Returns (Some v)) \<or>
     (\<exists>v. get_bed_temperature p = Returns (Some v)) \<or>
     (\<exists>v. get_chamber_temperature p = Returns (Some v))"
  by (auto simp add: data_received_def collected_def has_value_iff
      split: result.splits option.splits)

lemma data_received_spec:
  "data_received p \<Longrightarrow> spec_any_field_returned_data p"
  by (auto simp add: data_received_def spec_any_field_returned_data_def)

lemma printer_online_published:
  assumes "mqtt_client_connected p = Returns c"
  shows "printer_online (snd (update_printer name p m)) [name] =
    Some (Finite (online_value (liveness_of c (data_received p))))"
proof (cases c)
  case False
  with assms show ?thesis
    by (simp add: update_printer_disconnected reset_disconnected_def set_value_def
        liveness_of_def online_value_def)
next
  case True
  show ?thesis
  proof (cases "data_received p")
    case d: True
    from assms True have on: "mqtt_client_connected p = Returns True" by simp
    show ?thesis
      using True d
      by (simp add: online_gauges(4) [OF on d] set_value_def liveness_of_def online_value_def)
  next
    case d: False
    from assms True have on: "mqtt_client_connected p = Returns True" by simp
    show ?thesis
      using True d
      by (simp add: update_printer_silent [OF on d] reset_silent_def read_temperatures_eq
          set_value_def liveness_of_def online_value_def)
  qed
qed

text \<open>
  Claim C3, as stated, fails: a connected printer whose progress getter returns 50 while
  its three temperature getters return nothing has a telemetry field with data, so the
  claim classifies it as online; the code publishes the online gauge as 0.
\<close>

theorem progress_alone_is_not_online:
  "mqtt_client_connected (silent_printer\<lparr>get_percentage := Returns (Some 50)\<rparr>) = Returns True \<and>
   spec_any_field_returned_data (silent_printer\<lparr>get_percentage := Returns (Some 50)\<rparr>) \<and>
   liveness_of True
     (spec_any_field_returned_data (silent_printer\<lparr>get_percentage := Returns (Some 50)\<rparr>)) =
     ONLINE \<and>
   printer_online
     (snd (update_printer ''p1'' (silent_printer\<lparr>get_percentage := Returns (Some 50)\<rparr>)
        (BambuMetrics_init ''p1''))) [''p1''] = Some (Finite 0) \<and>
   printer_online
     (snd (update_printer ''p1'' (silent_printer\<lparr>get_percentage := Returns (Some 50)\<rparr>)
        (BambuMetrics_init ''p1''))) [''p1''] \<noteq>
     Some (Finite (online_value (liveness_of True
       (spec_any_field_returned_data (silent_printer\<lparr>get_percentage := Returns (Some 50)\<rparr>)))))"
proof -
  let ?p = "silent_printer\<lparr>get_percentage := Returns (Some 50)\<rparr>"
  have c: "mqtt_client_connected ?p = Returns True"
    by (simp add: silent_printer_def)
  have s: "spec_any_field_returned_data ?p"
    by (simp add: spec_any_field_returned_data_def silent_printer_def collected_def)
  have d: "\<not> data_received ?p"
    by (simp add: data_received_def silent_printer_def collected_def)
  have o: "printer_online (snd (update_printer ''p1'' ?p (BambuMetrics_init ''p1''))) [''p1''] =
      Some (Finite 0)"
    using d by (simp add: printer_online_published [OF c] liveness_of_def online_value_def)
  show ?thesis
    using c s o by (simp add: liveness_of_def online_value_def)
qed

text \<open>
  Claim C3, amended: with first match winning, a printer whose transport reports not
  connected is OFFLINE_DISCONNECTED (online gauge 0); else one of which none of the three
  temperature getters (nozzle, bed, chamber) returned a value this cycle is OFFLINE_SILENT
  (online gauge 0), which covers the printer of which no telemetry field returned data;
  otherwise it is ONLINE (online gauge 1). The data flag is true exactly when one of the
  three temperature getters returned a present value this cycle.
\<close>

theorem liveness_classification:
  assumes "mqtt_client_connected p = Returns c"
  shows "fst (update_printer name p m) = Normal \<and>
         printer_online (snd (update_printer name p m)) [name] =
           Some (Finite (online_value (liveness_of c (data_received p)))) \<and>
         (liveness_of c (data_received p) = OFFLINE_DISCONNECTED \<longleftrightarrow> \<not> c) \<and>
         (liveness_of c (data_received p) = OFFLINE_SILENT \<longleftrightarrow> c \<and> \<not> data_received p) \<and>
         (liveness_of c (data_received p) = ONLINE \<longleftrightarrow> c \<and> data_received p) \<and>
         (c \<and> \<not> spec_any_field_returned_data p \<longrightarrow>
            liveness_of c (data_received p) = OFFLINE_SILENT) \<and>
         online_value OFFLINE_DISCONNECTED = 0 \<and> online_value OFFLINE_SILENT = 0 \<and>
         online_value ONLINE = 1 \<and>
         (data_received p \<longleftrightarrow>
            (\<exists>v. get_nozzle_temperature p = Returns (Some v)) \<or>
            (\<exists>v. get_bed_temperature p = Returns (Some v)) \<or>
            (\<exists>v. get_chamber_temperature p = Returns (Some v)))"
proof -
  have n: "fst (update_printer name p m) = Normal"
    using assms by (simp add: update_printer_def split: prod.splits)
  have l: "liveness_of c (data_received p) = OFFLINE_DISCONNECTED \<longleftrightarrow> \<not> c"
    "liveness_of c (data_received p) = OFFLINE_SILENT \<longleftrightarrow> c \<and> \<not> data_received p"
    "liveness_of c (data_received p) = ONLINE \<longleftrightarrow> c \<and> data_received p"
    by (simp_all add: liveness_of_def)
  have z: "c \<and> \<not> spec_any_field_returned_data p \<longrightarrow>
      liveness_of c (data_received p) = OFFLINE_SILENT"
    using data_received_spec [of p] by (auto simp add: liveness_of_def)
  have v: "online_value OFFLINE_DISCONNECTED = 0" "online_value OFFLINE_SILENT = 0"
    "online_value ONLINE = 1"
    by (simp_all add: online_value_def)
  show ?thesis
    using n printer_online_published [OF assms, of name m] l z v data_received_iff [of p]
    by blast
qed

theorem liveness_classification_witness:
  "mqtt_client_connected busy_printer = Returns True \<and>
   fst (update_printer ''p1'' busy_printer (BambuMetrics_init ''p1'')) = Normal \<and>
   liveness_of True (data_received busy_printer) = ONLINE \<and>
   printer_online (snd (update_printer ''p1'' busy_printer (BambuMetrics_init ''p1'')))
     [''p1''] = Some (Finite 1)"
  using liveness_classification [OF busy_online(1), of "''p1''" "BambuMetrics_init ''p1''"]
  by (simp add: busy_online liveness_of_def online_value_def)

section \<open>Offline reset\<close>

lemma reset_silent_eq: "reset_silent name m = reset_disconnected name m"
  by (simp add: reset_silent_def reset_disconnected_def)

lemma no_data_keeps_temperatures:
  "\<not> data_received p \<Longrightarrow> fst (read_temperatures name p m) = m"
  by (simp add: read_temperatures_eq data_received_def has_value_iff)

lemma silent_like_disconnected:
  assumes "mqtt_client_connected p = Returns True" and "\<not> data_received p"
  shows "update_printer name p m = (Normal, reset_disconnected name m)"
  by (simp add: update_printer_silent [OF assms] no_data_keeps_temperatures [OF assms(2)]
      reset_silent_eq)

lemma reset_disconnected_values:
  "printer_online (reset_disconnected name m) [name] = Some (Finite 0)"
  "nozzle_temp (reset_disconnected name m) [name] = Some (Finite 0)"
  "nozzle_target_temp (reset_disconnected name m) [name] = Some (Finite 0)"
  "bed_temp (reset_disconnected name m) [name] = Some (Finite 0)"
  "bed_target_temp (reset_disconnected name m) [name] = Some (Finite 0)"
  "chamber_temp (reset_disconnected name m) [name] = Some (Finite 0)"
  "print_progress (reset_disconnected name m) [name] = Some (Finite 0)"
  "print_remaining_time (reset_disconnected name m) [name] = Some (Finite 0)"
  "current_layer (reset_disconnected name m) [name] = Some (Finite 0)"
  "total_layers (reset_disconnected name m) [name] = Some (Finite 0)"
  "print_speed (reset_disconnected name m) [name] = Some (Finite 0)"
  "error_code (reset_disconnected name m) [name] = Some (Finite 0)"
  "printer_state (reset_disconnected name m) [name] = Some (Finite 0)"
  by (simp_all add: reset_disconnected_def set_value_def)

lemma reset_disconnected_untouched:
  "wifi_signal (reset_disconnected name m) = wifi_signal m"
  "chamber_light (reset_disconnected name m) = chamber_light m"
  "total_prints (reset_disconnected name m) = total_prints m"
  "current_file (reset_disconnected name m) = current_file m"
  "nozzle_info (reset_disconnected name m) = nozzle_info m"
  "printer_info (reset_disconnected name m) = printer_info m"
  by (simp_all add: reset_disconnected_def)

lemma busy_cycle_gauges:
  "wifi_signal (update_device ''p1'' busy_printer (BambuMetrics_init ''p1'')) [''p1''] =
     Some (Finite (- 63))"
  "chamber_light (update_device ''p1'' busy_printer (BambuMetrics_init ''p1'')) [''p1''] =
     Some (Finite 1)"
  "nozzle_temp (update_device ''p1'' busy_printer (BambuMetrics_init ''p1'')) [''p1''] =
     Some (Finite (421 / 2))"
  "current_file (update_device ''p1'' busy_printer (BambuMetrics_init ''p1''))
     [''p1'', ''a.gcode''] = Some (Finite 1)"
proof -
  have n: "fst (update_printer ''p1'' busy_printer (BambuMetrics_init ''p1'')) = Normal"
    by (simp add: update_printer_online [OF busy_online])
  have lo: "lower ''ON'' = ''on''"
    by code_simp
  have g: "collected (wifi_signal_call busy_printer) = Some ''-63dBm''"
    "collected (get_light_state busy_printer) = Some ''ON''"
    "collected (get_nozzle_temperature busy_printer) = Some (421 / 2)"
    "file_labels ''p1'' busy_printer = Some [''p1'', ''a.gcode'']"
    by (simp_all add: busy_printer_def collected_def file_labels_def)
  show "wifi_signal (update_device ''p1'' busy_printer (BambuMetrics_init ''p1'')) [''p1''] =
      Some (Finite (- 63))"
    by (simp add: update_device_normal [OF n] online_gauges(2) [OF busy_online] g
        signal_examples)
  show "chamber_light (update_device ''p1'' busy_printer (BambuMetrics_init ''p1'')) [''p1''] =
      Some (Finite 1)"
    by (simp add: update_device_normal [OF n] online_gauges(3) [OF busy_online] g lo
        set_value_def)
  show "nozzle_temp (update_device ''p1'' busy_printer (BambuMetrics_init ''p1'')) [''p1''] =
      Some (Finite (421 / 2))"
    by (simp add: update_device_normal [OF n] online_gauges(5) [OF busy_online] g
        set_value_def)
  show "current_file (update_device ''p1'' busy_printer (BambuMetrics_init ''p1''))
      [''p1'', ''a.gcode''] = Some (Finite 1)"
    by (simp add: update_device_normal [OF n] online_gauges(6) [OF busy_online] g
        set_value_def)
qed

text \<open>
  Claim C4 against the code: after a cycle at work and a cycle in which the transport
  reports not connected, the online gauge and the nozzle temperature are 0, but the signal
  strength, the chamber light and the current file still show the readings of the cycle
  at work: the reset leaves these gauges out.
\<close>

theorem offline_reset_leaves_stale_gauges:
  "printer_online
     (cycles ''p1'' [busy_printer, busy_printer\<lparr>mqtt_client_connected := Returns False\<rparr>]
        (BambuMetrics_init ''p1'')) [''p1''] = Some (Finite 0) \<and>
   nozzle_temp
     (cycles ''p1'' [busy_printer, busy_printer\<lparr>mqtt_client_connected := Returns False\<rparr>]
        (BambuMetrics_init ''p1'')) [''p1''] = Some (Finite 0) \<and>
   wifi_signal
     (cycles ''p1'' [busy_printer, busy_printer\<lparr>mqtt_client_connected := Returns False\<rparr>]
        (BambuMetrics_init ''p1'')) [''p1''] = Some (Finite (- 63)) \<and>
   chamber_light
     (cycles ''p1'' [busy_printer, busy_printer\<lparr>mqtt_client_connected := Returns False\<rparr>]
        (BambuMetrics_init ''p1'')) [''p1''] = Some (Finite 1) \<and>
   current_file
     (cycles ''p1'' [busy_printer, busy_printer\<lparr>mqtt_client_connected := Returns False\<rparr>]
        (BambuMetrics_init ''p1'')) [''p1'', ''a.gcode''] = Some (Finite 1)"
proof -
  let ?q = "busy_printer\<lparr>mqtt_client_connected := Returns False\<rparr>"
  have d: "update_device ''p1'' ?q m = reset_disconnected ''p1'' m" for m
    by (simp add: update_device_def update_printer_disconnected)
  show ?thesis
    by (simp add: d reset_disconnected_values reset_disconnected_untouched busy_cycle_gauges)
qed

section \<open>Per-field fault isolation\<close>

text \<open>
  The body reads a client only through its connectivity check and through what each
  block keeps of its getter.
\<close>

lemma update_printer_cong:
  assumes c: "mqtt_client_connected p = mqtt_client_connected q"
    and t: "collected (get_nozzle_temperature p) = collected (get_nozzle_temperature q)"
      "collected (get_bed_temperature p) = collected (get_bed_temperature q)"
      "collected (get_chamber_temperature p) = collected (get_chamber_temperature q)"
    and o: "collected (get_percentage p) = collected (get_percentage q)"
      "collected (get_time p) = collected (get_time q)"
      "collected (current_layer_num p) = collected (current_layer_num q)"
      "collected (total_layer_num p) = collected (total_layer_num q)"
      "collected (get_print_speed p) = collected (get_print_speed q)"
      "collected (wifi_signal_call p) = collected (wifi_signal_call q)"
      "collected (get_light_state p) = collected (get_light_state q)"
      "collected (get_state p) = collected (get_state q)"
      "collected (gcode_state p) = collected (gcode_state q)"
      "collected (print_error_code p) = collected (print_error_code q)"
      "collected (get_file_name p) = collected (get_file_name q)"
      "collected (nozzle_type p) = collected (nozzle_type q)"
      "collected (nozzle_diameter p) = collected (nozzle_diameter q)"
  shows "update_printer name p m = update_printer name q m"
proof -
  have rt: "read_temperatures name p m = read_temperatures name q m"
    unfolding read_temperatures_eq data_received_def t ..
  have ro: "read_online_fields name p m' = read_online_fields name q m'" for m'
    unfolding read_online_fields_def read_online_eqs gcode_of_def file_labels_def
      nozzle_labels_def o ..
  show ?thesis
    unfolding update_printer_def rt ro c ..
qed

lemma collected_Raises [simp]: "collected Raises = None"
  by (simp add: collected_def)

lemma collected_Returns [simp]: "collected (Returns v) = v"
  by (simp add: collected_def)

lemma raise_like_none:
  "update_printer name (p\<lparr>get_nozzle_temperature := Raises\<rparr>) m =
     update_printer name (p\<lparr>get_nozzle_temperature := Returns None\<rparr>) m"
  "update_printer name (p\<lparr>get_bed_temperature := Raises\<rparr>) m =
     update_printer name (p\<lparr>get_bed_temperature := Returns None\<rparr>) m"
  "update_printer name (p\<lparr>get_chamber_temperature := Raises\<rparr>) m =
     update_printer name (p\<lparr>get_chamber_temperature := Returns None\<rparr>) m"
  "update_printer name (p\<lparr>get_percentage := Raises\<rparr>) m =
     update_printer name (p\<lparr>get_percentage := Returns None\<rparr>) m"
  "update_printer name (p\<lparr>get_time := Raises\<rparr>) m =
     update_printer name (p\<lparr>get_time := Returns None\<rparr>) m"
  "update_printer name (p\<lparr>current_layer_num := Raises\<rparr>) m =
     update_printer name (p\<lparr>current_layer_num := Returns None\<rparr>) m"
  "update_printer name (p\<lparr>total_layer_num := Raises\<rparr>) m =
     update_printer name (p\<lparr>total_layer_num := Returns None\<rparr>) m"
  "update_printer name (p\<lparr>get_print_speed := Raises\<rparr>) m =
     update_printer name (p\<lparr>get_print_speed := Returns None\<rparr>) m"
  "update_printer name (p\<lparr>wifi_signal_call := Raises\<rparr>) m =
     update_printer name (p\<lparr>wifi_signal_call := Returns None\<rparr>) m"
  "update_printer name (p\<lparr>get_light_state := Raises\<rparr>) m =
     update_printer name (p\<lparr>get_light_state := Returns None\<rparr>) m"
  "update_printer name (p\<lparr>get_state := Raises\<rparr>) m =
     update_printer name (p\<lparr>get_state := Returns None\<rparr>) m"
  "update_printer name (p\<lparr>gcode_state := Raises\<rparr>) m =
     update_printer name (p\<lparr>gcode_state := Returns None\<rparr>) m"
  "update_printer name (p\<lparr>print_error_code := Raises\<rparr>) m =
     update_printer name (p\<lparr>print_error_code := Returns None\<rparr>) m"
  "update_printer name (p\<lparr>get_file_name := Raises\<rparr>) m =
     update_printer name (p\<lparr>get_file_name := Returns None\<rparr>) m"
  "update_printer name (p\<lparr>nozzle_type := Raises\<rparr>) m =
     update_printer name (p\<lparr>nozzle_type := Returns None\<rparr>) m"
  "update_printer name (p\<lparr>nozzle_diameter := Raises\<rparr>) m =
     update_printer name (p\<lparr>nozzle_diameter := Returns None\<rparr>) m"
  by (rule update_printer_cong; simp)+

text \<open>
  Claim C7, as stated, fails: the nozzle temperature raises while the progress getter still
  reports 50 and the bed and chamber getters return nothing; the full offline reset takes
  place, the online gauge becomes 0 and the nozzle gauge loses its last value 210.5.
\<close>

theorem nozzle_failure_with_progress_resets:
  "get_nozzle_temperature
     (silent_printer\<lparr>get_nozzle_temperature := Raises, get_percentage := Returns (Some 50)\<rparr>) =
     Raises \<and>
   spec_any_field_returned_data
     (silent_printer\<lparr>get_nozzle_temperature := Raises, get_percentage := Returns (Some 50)\<rparr>) \<and>
   nozzle_temp (update_device ''p1'' busy_printer (BambuMetrics_init ''p1'')) [''p1''] =
     Some (Finite (421 / 2)) \<and>
   printer_online
     (cycles ''p1''
        [busy_printer,
         silent_printer\<lparr>get_nozzle_temperature := Raises, get_percentage := Returns (Some 50)\<rparr>]
        (BambuMetrics_init ''p1'')) [''p1''] = Some (Finite 0) \<and>
   nozzle_temp
     (cycles ''p1''
        [busy_printer,
         silent_printer\<lparr>get_nozzle_temperature := Raises, get_percentage := Returns (Some 50)\<rparr>]
        (BambuMetrics_init ''p1'')) [''p1''] = Some (Finite 0) \<and>
   print_progress
     (cycles ''p1''
        [busy_printer,
         silent_printer\<lparr>get_nozzle_temperature := Raises, get_percentage := Returns (Some 50)\<rparr>]
        (BambuMetrics_init ''p1'')) [''p1''] = Some (Finite 0)"
proof -
  let ?p = "silent_printer\<lparr>get_nozzle_temperature := Raises,
    get_percentage := Returns (Some 50)\<rparr>"
  have c: "mqtt_client_connected ?p = Returns True"
    by (simp add: silent_printer_def)
  have s: "spec_any_field_returned_data ?p"
    by (simp add: spec_any_field_returned_data_def silent_printer_def)
  have d: "\<not> data_received ?p"
    by (simp add: data_received_def silent_printer_def)
  have r: "update_device ''p1'' ?p m = reset_disconnected ''p1'' m" for m
    by (simp add: update_device_def silent_like_disconnected [OF c d])
  show ?thesis
    using s by (simp add: r reset_disconnected_values busy_cycle_gauges)
qed

text \<open>
  Claim C7, amended: a getter that raises is treated in every respect as one that returns
  \<open>None\<close>, for each of the sixteen fields, so the field alone is absent and every other
  field is collected as before; once the connectivity check has returned, the body ends
  without an exception; for a connected printer the offline reset takes place exactly when
  none of the three temperature getters delivered a value, whatever the other fields
  report; and when the nozzle temperature raises while the bed or the chamber temperature
  still reports data, the printer stays online and the nozzle gauge keeps its last value.
\<close>

theorem field_fault_isolation:
  "update_printer name (p\<lparr>get_nozzle_temperature := Raises\<rparr>) m =
     update_printer name (p\<lparr>get_nozzle_temperature := Returns None\<rparr>) m \<and>
   update_printer name (p\<lparr>get_bed_temperature := Raises\<rparr>) m =
     update_printer name (p\<lparr>get_bed_temperature := Returns None\<rparr>) m \<and>
   update_printer name (p\<lparr>get_chamber_temperature := Raises\<rparr>) m =
     update_printer name (p\<lparr>get_chamber_temperature := Returns None\<rparr>) m \<and>
   update_printer name (p\<lparr>get_percentage := Raises\<rparr>) m =
     update_printer name (p\<lparr>get_percentage := Returns None\<rparr>) m \<and>
   update_printer name (p\<lparr>get_time := Raises\<rparr>) m =
     update_printer name (p\<lparr>get_time := Returns None\<rparr>) m \<and>
   update_printer name (p\<lparr>current_layer_num := Raises\<rparr>) m =
     update_printer name (p\<lparr>current_layer_num := Returns None\<rparr>) m \<and>
   update_printer name (p\<lparr>total_layer_num := Raises\<rparr>) m =
     update_printer name (p\<lparr>total_layer_num := Returns None\<rparr>) m \<and>
   update_printer name (p\<lparr>get_print_speed := Raises\<rparr>) m =
     update_printer name (p\<lparr>get_print_speed := Returns None\<rparr>) m \<and>
   update_printer name (p\<lparr>wifi_signal_call := Raises\<rparr>) m =
     update_printer name (p\<lparr>wifi_signal_call := Returns None\<rparr>) m \<and>
   update_printer name (p\<lparr>get_light_state := Raises\<rparr>) m =
     update_printer name (p\<lparr>get_light_state := Returns None\<rparr>) m \<and>
   update_printer name (p\<lparr>get_state := Raises\<rparr>) m =
     update_printer name (p\<lparr>get_state := Returns None\<rparr>) m \<and>
   update_printer name (p\<lparr>gcode_state := Raises\<rparr>) m =
     update_printer name (p\<lparr>gcode_state := Returns None\<rparr>) m \<and>
   update_printer name (p\<lparr>print_error_code := Raises\<rparr>) m =
     update_printer name (p\<lparr>print_error_code := Returns None\<rparr>) m \<and>
   update_printer name (p\<lparr>get_file_name := Raises\<rparr>) m =
     update_printer name (p\<lparr>get_file_name := Returns None\<rparr>) m \<and>
   update_printer name (p\<lparr>nozzle_type := Raises\<rparr>) m =
     update_printer name (p\<lparr>nozzle_type := Returns None\<rparr>) m \<and>
   update_printer name (p\<lparr>nozzle_diameter := Raises\<rparr>) m =
     update_printer name (p\<lparr>nozzle_diameter := Returns None\<rparr>) m \<and>
   (\<forall>c. mqtt_client_connected p = Returns c \<longrightarrow> fst (update_printer name p m) = Normal) \<and>
   (mqtt_client_connected p = Returns True \<longrightarrow>
      (printer_online (snd (update_printer name p m)) [name] = Some (Finite 0) \<longleftrightarrow>
         \<not> data_received p) \<and>
      (\<not> data_received p \<longrightarrow> snd (update_printer name p m) = reset_disconnected name m)) \<and>
   (mqtt_client_connected p = Returns True \<and> get_nozzle_temperature p = Raises \<and>
      (has_value (collected (get_bed_temperature p)) \<or>
       has_value (collected (get_chamber_temperature p))) \<longrightarrow>
      printer_online (snd (update_printer name p m)) [name] = Some (Finite 1) \<and>
      nozzle_temp (snd (update_printer name p m)) = nozzle_temp m)"
proof -
  have n: "\<forall>c. mqtt_client_connected p = Returns c \<longrightarrow> fst (update_printer name p m) = Normal"
    by (simp add: update_printer_def split: prod.splits)
  have r: "mqtt_client_connected p = Returns True \<longrightarrow>
      (printer_online (snd (update_printer name p m)) [name] = Some (Finite 0) \<longleftrightarrow>
         \<not> data_received p) \<and>
      (\<not> data_received p \<longrightarrow> snd (update_printer name p m) = reset_disconnected name m)"
  proof
    assume c: "mqtt_client_connected p = Returns True"
    have "printer_online (snd (update_printer name p m)) [name] = Some (Finite 0) \<longleftrightarrow>
        \<not> data_received p"
      by (simp add: printer_online_published [OF c] liveness_of_def online_value_def)
    moreover have "\<not> data_received p \<longrightarrow>
        snd (update_printer name p m) = reset_disconnected name m"
      using c by (simp add: silent_like_disconnected)
    ultimately show "(printer_online (snd (update_printer name p m)) [name] = Some (Finite 0) \<longleftrightarrow>
        \<not> data_received p) \<and>
      (\<not> data_received p \<longrightarrow> snd (update_printer name p m) = reset_disconnected name m)"
      by (intro conjI)
  qed
  have e: "mqtt_client_connected p = Returns True \<and> get_nozzle_temperature p = Raises \<and>
      (has_value (collected (get_bed_temperature p)) \<or>
       has_value (collected (get_chamber_temperature p))) \<longrightarrow>
      printer_online (snd (update_printer name p m)) [name] = Some (Finite 1) \<and>
      nozzle_temp (snd (update_printer name p m)) = nozzle_temp m"
  proof
    assume a: "mqtt_client_connected p = Returns True \<and> get_nozzle_temperature p = Raises \<and>
      (has_value (collected (get_bed_temperature p)) \<or>
       has_value (collected (get_chamber_temperature p)))"
    then have c: "mqtt_client_connected p = Returns True"
      and d: "data_received p"
      by (auto simp add: data_received_def)
    from a show "printer_online (snd (update_printer name p m)) [name] = Some (Finite 1) \<and>
        nozzle_temp (snd (update_printer name p m)) = nozzle_temp m"
      by (simp add: online_gauges(4,5) [OF c d] set_value_def)
  qed
  from raise_like_none [of name p m] n r e show ?thesis
    by (intro conjI)
qed

theorem field_fault_isolation_witness:
  "mqtt_client_connected (busy_printer\<lparr>get_nozzle_temperature := Raises\<rparr>) = Returns True \<and>
   get_nozzle_temperature (busy_printer\<lparr>get_nozzle_temperature := Raises\<rparr>) = Raises \<and>
   has_value (collected (get_bed_temperature (busy_printer\<lparr>get_nozzle_temperature := Raises\<rparr>))) \<and>
   printer_online
     (snd (update_printer ''p1'' (busy_printer\<lparr>get_nozzle_temperature := Raises\<rparr>)
        ((BambuMetrics_init ''p1'')\<lparr>nozzle_temp := [[''p1''] \<mapsto> Finite (421 / 2)]\<rparr>)))
     [''p1''] = Some (Finite 1) \<and>
   nozzle_temp
     (snd (update_printer ''p1'' (busy_printer\<lparr>get_nozzle_temperature := Raises\<rparr>)
        ((BambuMetrics_init ''p1'')\<lparr>nozzle_temp := [[''p1''] \<mapsto> Finite (421 / 2)]\<rparr>)))
     [''p1''] = Some (Finite (421 / 2))"
proof -
  let ?p = "busy_printer\<lparr>get_nozzle_temperature := Raises\<rparr>"
  let ?m = "(BambuMetrics_init ''p1'')\<lparr>nozzle_temp := [[''p1''] \<mapsto> Finite (421 / 2)]\<rparr>"
  have g: "mqtt_client_connected ?p = Returns True" "get_nozzle_temperature ?p = Raises"
    "has_value (collected (get_bed_temperature ?p))"
    by (simp_all add: busy_printer_def)
  have k: "printer_online (snd (update_printer ''p1'' ?p ?m)) [''p1''] = Some (Finite 1) \<and>
      nozzle_temp (snd (update_printer ''p1'' ?p ?m)) = nozzle_temp ?m"
    using field_fault_isolation [of "''p1''" ?p ?m] g by blast
  show ?thesis
    using g k by simp
qed

section \<open>Dynamic-label metrics\<close>

lemma dynamic_gauges_update_device:
  "current_file (update_device name p m) =
     (if mqtt_client_connected p = Returns True \<and> data_received p then
        (case file_labels name p of
           None \<Rightarrow> current_file m
         | Some ls \<Rightarrow> set_value ls 1 Map.empty)
      else current_file m)"
  "nozzle_info (update_device name p m) =
     (if mqtt_client_connected p = Returns True \<and> data_received p then
        (case nozzle_labels name p of
           None \<Rightarrow> nozzle_info m
         | Some ls \<Rightarrow> set_value ls 1 Map.empty)
      else nozzle_info m)"
proof -
  consider (raises) "mqtt_client_connected p = Raises"
    | (off) "mqtt_client_connected p = Returns False"
    | (silent) "mqtt_client_connected p = Returns True" "\<not> data_received p"
    | (on) "mqtt_client_connected p = Returns True" "data_received p"
    by (cases "mqtt_client_connected p") auto
  then have "current_file (update_device name p m) =
     (if mqtt_client_connected p = Returns True \<and> data_received p then
        (case file_labels name p of
           None \<Rightarrow> current_file m
         | Some ls \<Rightarrow> set_value ls 1 Map.empty)
      else current_file m) \<and>
    nozzle_info (update_device name p m) =
     (if mqtt_client_connected p = Returns True \<and> data_received p then
        (case nozzle_labels name p of
           None \<Rightarrow> nozzle_info m
         | Some ls \<Rightarrow> set_value ls 1 Map.empty)
      else nozzle_info m)"
  proof cases
    case raises
    then show ?thesis
      by (simp add: update_device_def update_printer_raises)
  next
    case off
    then show ?thesis
      by (simp add: update_device_def update_printer_disconnected reset_disconnected_untouched)
  next
    case silent
    then show ?thesis
      by (simp add: update_device_def silent_like_disconnected reset_disconnected_untouched)
  next
    case on
    have n: "fst (update_printer name p m) = Normal"
      by (simp add: update_printer_online [OF on])
    show ?thesis
      using on by (simp add: update_device_normal [OF n] online_gauges(6,7) [OF on])
  qed
  then show "current_file (update_device name p m) =
     (if mqtt_client_connected p = Returns True \<and> data_received p then
        (case file_labels name p of
           None \<Rightarrow> current_file m
         | Some ls \<Rightarrow> set_value ls 1 Map.empty)
      else current_file m)"
    and "nozzle_info (update_device name p m) =
     (if mqtt_client_connected p = Returns True \<and> data_received p then
        (case nozzle_labels name p of
           None \<Rightarrow> nozzle_info m
         | Some ls \<Rightarrow> set_value ls 1 Map.empty)
      else nozzle_info m)"
    by simp_all
qed

lemma single_active_step:
  "single_active (current_file m) \<Longrightarrow> single_active (current_file (update_device name p m))"
  "single_active (nozzle_info m) \<Longrightarrow> single_active (nozzle_info (update_device name p m))"
  by (auto simp add: dynamic_gauges_update_device single_active_def set_value_def
      split: option.splits)

lemma single_active_cycles:
  "single_active (current_file m) \<Longrightarrow> single_active (current_file (cycles name ps m))"
  "single_active (nozzle_info m) \<Longrightarrow> single_active (nozzle_info (cycles name ps m))"
  by (induction ps arbitrary: m) (simp_all add: single_active_step)

lemma single_active_init:
  "single_active (current_file (BambuMetrics_init name))"
  "single_active (nozzle_info (BambuMetrics_init name))"
  by (simp_all add: single_active_def BambuMetrics_init_def)

lemma file_labels_simps:
  "get_file_name p = Returns (Some (c # cs)) \<Longrightarrow> file_labels name p = Some [name, c # cs]"
  "get_file_name p = Returns None \<Longrightarrow> file_labels name p = None"
  "get_file_name p = Raises \<Longrightarrow> file_labels name p = None"
  "get_file_name p = Returns (Some []) \<Longrightarrow> file_labels name p = None"
  by (simp_all add: file_labels_def)

text \<open>
  Claim C5, as stated, fails in its protocol: in a cycle of an online printer whose nozzle
  type is absent, the combination published by the cycle before is not removed, while the
  protocol of the claim leaves the metric empty.
\<close>

theorem absent_nozzle_type_removes_nothing:
  "mqtt_client_connected (busy_printer\<lparr>nozzle_type := Returns None\<rparr>) = Returns True \<and>
   data_received (busy_printer\<lparr>nozzle_type := Returns None\<rparr>) \<and>
   nozzle_labels ''p1'' (busy_printer\<lparr>nozzle_type := Returns None\<rparr>) = None \<and>
   nozzle_info
     (cycles ''p1'' [busy_printer, busy_printer\<lparr>nozzle_type := Returns None\<rparr>]
        (BambuMetrics_init ''p1'')) [''p1'', ''steel'', ''0.4''] = Some (Finite 1) \<and>
   nozzle_info
     (cycles ''p1'' [busy_printer, busy_printer\<lparr>nozzle_type := Returns None\<rparr>]
        (BambuMetrics_init ''p1'')) \<noteq>
     spec_dynamic_update (nozzle_labels ''p1'' (busy_printer\<lparr>nozzle_type := Returns None\<rparr>))
       (nozzle_info (update_device ''p1'' busy_printer (BambuMetrics_init ''p1'')))"
proof -
  let ?q = "busy_printer\<lparr>nozzle_type := Returns None\<rparr>"
  have on: "mqtt_client_connected ?q = Returns True" "data_received ?q"
    by (simp_all add: busy_printer_def data_received_def)
  have l: "nozzle_labels ''p1'' ?q = None"
    "nozzle_labels ''p1'' busy_printer = Some [''p1'', ''steel'', ''0.4'']"
    by (simp_all add: nozzle_labels_def busy_printer_def)
  have v: "nozzle_info (cycles ''p1'' [busy_printer, ?q] (BambuMetrics_init ''p1''))
      [''p1'', ''steel'', ''0.4''] = Some (Finite 1)"
    by (simp add: dynamic_gauges_update_device on busy_online l set_value_def)
  have e: "spec_dynamic_update None g [''p1'', ''steel'', ''0.4''] = None" for g
    by (simp add: spec_dynamic_update_def)
  from v e have "nozzle_info (cycles ''p1'' [busy_printer, ?q] (BambuMetrics_init ''p1'')) \<noteq>
      spec_dynamic_update None g" for g
    by (metis option.distinct(1))
  with on l v show ?thesis
    by simp
qed

text \<open>
  Claim C5, amended: an update of a dynamic-label metric takes place in a cycle of an online
  printer with a present value (a non-empty file name; a nozzle type and a diameter), and
  then it removes every combination of the metric and sets the one new combination to 1;
  in every other cycle the metric is left as it is. Consequently, from the start of the
  exporter on, each of the two metrics holds at most one combination, with the value 1,
  and any other combination is absent, never present with 0. After two consecutive online
  cycles with the file names \<open>a.gcode\<close> and \<open>b.gcode\<close> only the combination of
  \<open>b.gcode\<close> is there.
\<close>

theorem dynamic_label_single_active:
  "(mqtt_client_connected p = Returns True \<and> data_received p \<longrightarrow>
      (\<forall>ls. file_labels name p = Some ls \<longrightarrow>
         current_file (update_device name p m) = [ls \<mapsto> Finite 1]) \<and>
      (\<forall>ls. nozzle_labels name p = Some ls \<longrightarrow>
         nozzle_info (update_device name p m) = [ls \<mapsto> Finite 1])) \<and>
   (\<not> (mqtt_client_connected p = Returns True \<and> data_received p) \<or>
      file_labels name p = None \<longrightarrow>
      current_file (update_device name p m) = current_file m) \<and>
   (\<not> (mqtt_client_connected p = Returns True \<and> data_received p) \<or>
      nozzle_labels name p = None \<longrightarrow>
      nozzle_info (update_device name p m) = nozzle_info m) \<and>
   single_active (current_file (cycles name ps (BambuMetrics_init name))) \<and>
   single_active (nozzle_info (cycles name ps (BambuMetrics_init name))) \<and>
   (mqtt_client_connected p1 = Returns True \<and> data_received p1 \<and>
    get_file_name p1 = Returns (Some ''a.gcode'') \<and>
    mqtt_client_connected p2 = Returns True \<and> data_received p2 \<and>
    get_file_name p2 = Returns (Some ''b.gcode'') \<longrightarrow>
      current_file (update_device name p1 m) = [[name, ''a.gcode''] \<mapsto> Finite 1] \<and>
      current_file (cycles name [p1, p2] m) = [[name, ''b.gcode''] \<mapsto> Finite 1] \<and>
      current_file (cycles name [p1, p2] m) [name, ''b.gcode''] = Some (Finite 1) \<and>
      current_file (cycles name [p1, p2] m) [name, ''a.gcode''] = None)"
proof -
  have a: "mqtt_client_connected p = Returns True \<and> data_received p \<longrightarrow>
      (\<forall>ls. file_labels name p = Some ls \<longrightarrow>
         current_file (update_device name p m) = [ls \<mapsto> Finite 1]) \<and>
      (\<forall>ls. nozzle_labels name p = Some ls \<longrightarrow>
         nozzle_info (update_device name p m) = [ls \<mapsto> Finite 1])"
    by (simp add: dynamic_gauges_update_device set_value_def)
  have b: "\<not> (mqtt_client_connected p = Returns True \<and> data_received p) \<or>
      file_labels name p = None \<longrightarrow>
      current_file (update_device name p m) = current_file m"
    by (auto simp add: dynamic_gauges_update_device)
  have c: "\<not> (mqtt_client_connected p = Returns True \<and> data_received p) \<or>
      nozzle_labels name p = None \<longrightarrow>
      nozzle_info (update_device name p m) = nozzle_info m"
    by (auto simp add: dynamic_gauges_update_device)
  have d: "single_active (current_file (cycles name ps (BambuMetrics_init name)))"
    "single_active (nozzle_info (cycles name ps (BambuMetrics_init name)))"
    by (simp_all add: single_active_cycles single_active_init)
  have e: "mqtt_client_connected p1 = Returns True \<and> data_received p1 \<and>
    get_file_name p1 = Returns (Some ''a.gcode'') \<and>
    mqtt_client_connected p2 = Returns True \<and> data_received p2 \<and>
    get_file_name p2 = Returns (Some ''b.gcode'') \<longrightarrow>
      current_file (update_device name p1 m) = [[name, ''a.gcode''] \<mapsto> Finite 1] \<and>
      current_file (cycles name [p1, p2] m) = [[name, ''b.gcode''] \<mapsto> Finite 1] \<and>
      current_file (cycles name [p1, p2] m) [name, ''b.gcode''] = Some (Finite 1) \<and>
      current_file (cycles name [p1, p2] m) [name, ''a.gcode''] = None"
    by (simp add: dynamic_gauges_update_device file_labels_simps set_value_def)
  from a b c d e show ?thesis
    by (intro conjI)
qed

theorem dynamic_label_single_active_witness:
  "mqtt_client_connected busy_printer = Returns True \<and> data_received busy_printer \<and>
   get_file_name busy_printer = Returns (Some ''a.gcode'') \<and>
   mqtt_client_connected (busy_printer\<lparr>get_file_name := Returns (Some ''b.gcode'')\<rparr>) =
     Returns True \<and>
   data_received (busy_printer\<lparr>get_file_name := Returns (Some ''b.gcode'')\<rparr>) \<and>
   get_file_name (busy_printer\<lparr>get_file_name := Returns (Some ''b.gcode'')\<rparr>) =
     Returns (Some ''b.gcode'') \<and>
   current_file
     (cycles ''p1'' [busy_printer, busy_printer\<lparr>get_file_name := Returns (Some ''b.gcode'')\<rparr>]
        (BambuMetrics_init ''p1'')) [''p1'', ''b.gcode''] = Some (Finite 1) \<and>
   current_file
     (cycles ''p1'' [busy_printer, busy_printer\<lparr>get_file_name := Returns (Some ''b.gcode'')\<rparr>]
        (BambuMetrics_init ''p1'')) [''p1'', ''a.gcode''] = None"
proof -
  let ?q = "busy_printer\<lparr>get_file_name := Returns (Some ''b.gcode'')\<rparr>"
  have g: "mqtt_client_connected busy_printer = Returns True" "data_received busy_printer"
    "get_file_name busy_printer = Returns (Some ''a.gcode'')"
    "mqtt_client_connected ?q = Returns True" "data_received ?q"
    "get_file_name ?q = Returns (Some ''b.gcode'')"
    by (simp_all add: busy_printer_def data_received_def)
  have "current_file (cycles ''p1'' [busy_printer, ?q] (BambuMetrics_init ''p1''))
        [''p1'', ''b.gcode''] = Some (Finite 1) \<and>
      current_file (cycles ''p1'' [busy_printer, ?q] (BambuMetrics_init ''p1''))
        [''p1'', ''a.gcode''] = None"
    using dynamic_label_single_active [of busy_printer "''p1''" "BambuMetrics_init ''p1''" "[]"
        busy_printer ?q] g
    by blast
  with g show ?thesis
    by (intro conjI) simp_all
qed

text \<open>
  Claim C6, as stated, fails: in a cycle of an online printer whose file name is absent the
  metric is not empty; the combination of the cycle before is still there with value 1.
\<close>

theorem absent_file_name_keeps_old_combination:
  "mqtt_client_connected (busy_printer\<lparr>get_file_name := Returns None\<rparr>) = Returns True \<and>
   data_received (busy_printer\<lparr>get_file_name := Returns None\<rparr>) \<and>
   get_file_name (busy_printer\<lparr>get_file_name := Returns None\<rparr>) = Returns None \<and>
   current_file
     (cycles ''p1'' [busy_printer, busy_printer\<lparr>get_file_name := Returns None\<rparr>]
        (BambuMetrics_init ''p1'')) [''p1'', ''a.gcode''] = Some (Finite 1) \<and>
   current_file
     (cycles ''p1'' [busy_printer, busy_printer\<lparr>get_file_name := Returns None\<rparr>]
        (BambuMetrics_init ''p1'')) \<noteq> Map.empty"
proof -
  let ?q = "busy_printer\<lparr>get_file_name := Returns None\<rparr>"
  have on: "mqtt_client_connected ?q = Returns True" "data_received ?q"
    by (simp_all add: busy_printer_def data_received_def)
  have l: "file_labels ''p1'' ?q = None"
    "file_labels ''p1'' busy_printer = Some [''p1'', ''a.gcode'']"
    by (simp_all add: file_labels_def busy_printer_def)
  have v: "current_file (cycles ''p1'' [busy_printer, ?q] (BambuMetrics_init ''p1''))
      [''p1'', ''a.gcode''] = Some (Finite 1)"
    by (simp add: dynamic_gauges_update_device on busy_online l set_value_def)
  then have "current_file (cycles ''p1'' [busy_printer, ?q] (BambuMetrics_init ''p1'')) \<noteq>
      Map.empty"
    by (metis option.distinct(1))
  with on v show ?thesis
    by simp
qed

text \<open>
  Claim C6, amended: in a cycle in which the dynamic-label value is absent (the file name
  getter raises, returns \<open>None\<close> or returns the empty text; the nozzle type or the
  diameter getter raises or returns \<open>None\<close>), no combination is republished and none is
  removed: the metric holds exactly what it held before, so it is empty only if it was
  empty before the cycle.
\<close>

theorem absent_dynamic_value_leaves_metric:
  "(get_file_name p = Raises \<or> get_file_name p = Returns None \<or>
      get_file_name p = Returns (Some []) \<longrightarrow>
      current_file (update_device name p m) = current_file m) \<and>
   (nozzle_type p = Raises \<or> nozzle_type p = Returns None \<or>
    nozzle_diameter p = Raises \<or> nozzle_diameter p = Returns None \<longrightarrow>
      nozzle_info (update_device name p m) = nozzle_info m)"
proof -
  have f: "get_file_name p = Raises \<or> get_file_name p = Returns None \<or>
      get_file_name p = Returns (Some []) \<longrightarrow> file_labels name p = None"
    by (auto simp add: file_labels_simps)
  have n: "nozzle_type p = Raises \<or> nozzle_type p = Returns None \<or>
      nozzle_diameter p = Raises \<or> nozzle_diameter p = Returns None \<longrightarrow>
      nozzle_labels name p = None"
    by (auto simp add: nozzle_labels_def split: option.splits)
  from f n show ?thesis
    by (auto simp add: dynamic_gauges_update_device)
qed

theorem absent_dynamic_value_leaves_metric_witness:
  "get_file_name (busy_printer\<lparr>get_file_name := Raises\<rparr>) = Raises \<and>
   current_file
     (update_device ''p1'' (busy_printer\<lparr>get_file_name := Raises\<rparr>)
        (update_device ''p1'' busy_printer (BambuMetrics_init ''p1'')))
     [''p1'', ''a.gcode''] = Some (Finite 1)"
proof -
  let ?q = "busy_printer\<lparr>get_file_name := Raises\<rparr>"
  have g: "get_file_name ?q = Raises"
    by simp
  have "current_file (update_device ''p1'' ?q
        (update_device ''p1'' busy_printer (BambuMetrics_init ''p1''))) =
      current_file (update_device ''p1'' busy_printer (BambuMetrics_init ''p1''))"
    using absent_dynamic_value_leaves_metric [of ?q "''p1''"
        "update_device ''p1'' busy_printer (BambuMetrics_init ''p1'')"] g
    by blast
  with g show ?thesis
    by (simp add: busy_cycle_gauges)
qed

section \<open>The loop over the printers\<close>


lemma missing_metrics_leave_the_loop:
  "ms name = None \<Longrightarrow> update_metrics ((name, p) # rest) ms = (Raised, ms)"
  by simp



end
